theory Spec2Isabelle
  imports Main "HOL-Library.Sublist"
begin

section \<open>Data model of the contribution form\<close>

text \<open>
  The page \<^verbatim>\<open>src/app/community/page.tsx\<close> holds a form with three fields. A string is a
  list of characters and its length is the number of its elements, which is what the
  \<^verbatim>\<open>length\<close> property read by the schema's \<^verbatim>\<open>min\<close> check counts. A \<^verbatim>\<open>File\<close> is known to
  the page by its name only; size and media type are carried along and never read.
\<close>

record File =
  name :: string
  size_bytes :: nat
  mime_type :: string

text \<open>The type \<^verbatim>\<open>File | null | undefined\<close> of the field \<^verbatim>\<open>artifactFile\<close>.\<close>

datatype attachment = Undefined | Null | FileObj File

record FormValues =
  artifactName :: string
  artifactFile :: attachment
  contributionText :: string

datatype fieldId = ArtifactNameField | ArtifactFileField | ContributionTextField

record FieldError =
  path :: fieldId
  message :: string

section \<open>The validation schema\<close>

text \<open>
  \<^verbatim>\<open>formSchema\<close> is an object schema: every key is parsed, and the issues of all keys are
  collected in the order of the keys. \<^verbatim>\<open>z.string().min(n, {message})\<close> raises one issue
  when the length is below \<^verbatim>\<open>n\<close>. \<^verbatim>\<open>z.instanceof(File).optional().nullable()\<close> accepts
  \<^verbatim>\<open>undefined\<close>, \<^verbatim>\<open>null\<close> and every instance of \<^verbatim>\<open>File\<close>.
\<close>

definition check_artifactName :: "string \<Rightarrow> FieldError list" where
  "check_artifactName s =
     (if length s < 2
      then [\<lparr>path = ArtifactNameField,
             message = ''Artifact name must be at least 2 characters.''\<rparr>]
      else [])"

fun check_artifactFile :: "attachment \<Rightarrow> FieldError list" where
  "check_artifactFile Undefined = []"
| "check_artifactFile Null = []"
| "check_artifactFile (FileObj f) = []"

definition check_contributionText :: "string \<Rightarrow> FieldError list" where
  "check_contributionText s =
     (if length s < 20
      then [\<lparr>path = ContributionTextField,
             message = ''Description must be at least 20 characters long.''\<rparr>]
      else [])"

definition formSchema_issues :: "FormValues \<Rightarrow> FieldError list" where
  "formSchema_issues v =
     check_artifactName (artifactName v)
       @ check_artifactFile (artifactFile v)
       @ check_contributionText (contributionText v)"

definition formSchema_parse :: "FormValues \<Rightarrow> FieldError list + FormValues" where
  "formSchema_parse v =
     (case formSchema_issues v of [] \<Rightarrow> Inr v | e # es \<Rightarrow> Inl (e # es))"

text \<open>The characters that \<^verbatim>\<open>trim\<close> would remove, among those a \<^typ>\<open>char\<close> can hold.\<close>

definition is_whitespace :: "char \<Rightarrow> bool" where
  "is_whitespace c =
     (c = CHR '' '' \<or> c = CHR 0x09 \<or> c = CHR 0x0A \<or> c = CHR 0x0B
        \<or> c = CHR 0x0C \<or> c = CHR 0x0D \<or> c = CHR 0xA0)"

section \<open>The page's state\<close>

datatype toastVariant = DefaultVariant | Destructive

record Toast =
  title :: string
  description :: string
  variant :: toastVariant

text \<open>
  The state of \<^verbatim>\<open>CommunityPage\<close>: the pending flag of the transition hook, the two
  \<^verbatim>\<open>useState\<close> cells, the values and errors held by the form, the files held by the
  hidden file input that \<^verbatim>\<open>fileInputRef\<close> points to (\<open>None\<close> when \<^verbatim>\<open>fileInputRef.current\<close>
  is null), the notifications and console messages emitted so far, and the asynchronous
  callbacks of \<^verbatim>\<open>onSubmit\<close> that are suspended at their \<^verbatim>\<open>await\<close>, each with the values
  it captured. The pending flag is on from the start of a callback until no callback is
  suspended any more.
\<close>

record Page =
  isPending :: bool
  summary :: "string option"
  selectedFileName :: "string option"
  formValues :: FormValues
  formErrors :: "FieldError list"
  fileInputFiles :: "File list option"
  toasts :: "Toast list"
  consoleErrors :: "string list"
  timers :: "FormValues list"

definition defaultValues :: FormValues where
  "defaultValues = \<lparr>artifactName = [], artifactFile = Null, contributionText = []\<rparr>"

definition initialPage :: Page where
  "initialPage =
     \<lparr>isPending = False, summary = None, selectedFileName = None,
      formValues = defaultValues, formErrors = [], fileInputFiles = Some [],
      toasts = [], consoleErrors = [], timers = []\<rparr>"

section \<open>Attachment handling\<close>

text \<open>
  \<^verbatim>\<open>const file = event.target.files?.[0] || null\<close>: the first file of the list, and
  \<^verbatim>\<open>null\<close> when the list is missing or empty. The file replaces the field's value, and
  its name, or \<^verbatim>\<open>null\<close>, replaces the displayed name.
\<close>

definition handleFileChange :: "File list option \<Rightarrow> Page \<Rightarrow> Page" where
  "handleFileChange files s =
     (let file = (case files of None \<Rightarrow> Null
                  | Some [] \<Rightarrow> Null
                  | Some (f # rest) \<Rightarrow> FileObj f)
      in s\<lparr>formValues := (formValues s)\<lparr>artifactFile := file\<rparr>,
           selectedFileName := (case file of FileObj f \<Rightarrow> Some (name f)
                                | Undefined \<Rightarrow> None
                                | Null \<Rightarrow> None)\<rparr>)"

section \<open>Submission\<close>

definition fileInfo :: "attachment \<Rightarrow> string" where
  "fileInfo a =
     (case a of FileObj f \<Rightarrow> '' (with file: '' @ name f @ '')''
      | Undefined \<Rightarrow> []
      | Null \<Rightarrow> [])"

definition summaryText :: "FormValues \<Rightarrow> string" where
  "summaryText values =
     ''Thank you for your submission about '' @ [CHR 0x22] @ artifactName values
       @ [CHR 0x22] @ fileInfo (artifactFile values)
       @ ''. The data has been received and will be authenticated and added to the archive.''"

definition successToast :: Toast where
  "successToast =
     \<lparr>title = ''Contribution Received!'',
      description = ''Your submission has been sent for review.'',
      variant = DefaultVariant\<rparr>"

definition errorToast :: Toast where
  "errorToast =
     \<lparr>title = ''Error'',
      description = ''Failed to submit contribution. Please try again.'',
      variant = Destructive\<rparr>"

text \<open>
  \<^verbatim>\<open>onSubmit\<close> up to its \<^verbatim>\<open>await\<close>: the transition starts, the summary is cleared, and the
  callback is suspended with the values it was called with.
\<close>

definition onSubmit :: "FormValues \<Rightarrow> Page \<Rightarrow> Page" where
  "onSubmit values s =
     s\<lparr>isPending := True, summary := None, timers := timers s @ [values]\<rparr>"

text \<open>How the awaited promise settles: fulfilled, or rejected with a reason.\<close>

datatype settled = Fulfilled | Rejected string

text \<open>
  \<^verbatim>\<open>new Promise(resolve => setTimeout(resolve, 2000))\<close>: the executor calls \<^verbatim>\<open>resolve\<close>
  from the timer and never rejects.
\<close>

definition simulatedDelay :: settled where
  "simulatedDelay = Fulfilled"

text \<open>
  \<^verbatim>\<open>onSubmit\<close> after its \<^verbatim>\<open>await\<close>. When the promise is fulfilled the rest of the \<^verbatim>\<open>try\<close>
  block runs: the summary is set from the captured values, the success notification is
  emitted, \<^verbatim>\<open>form.reset()\<close> puts the default values back and clears the errors, the
  displayed file name is cleared, and the file input is emptied if the reference holds
  it. When the promise is rejected the \<^verbatim>\<open>catch\<close> block runs: the reason goes to the
  console and the error notification is emitted.
\<close>

definition onSubmit_resume :: "settled \<Rightarrow> FormValues \<Rightarrow> Page \<Rightarrow> Page" where
  "onSubmit_resume outcome values s =
     (case outcome of
        Fulfilled \<Rightarrow>
          s\<lparr>summary := Some (summaryText values),
            toasts := toasts s @ [successToast],
            formValues := defaultValues,
            formErrors := [],
            selectedFileName := None,
            fileInputFiles := (case fileInputFiles s of None \<Rightarrow> None
                               | Some fs \<Rightarrow> Some [])\<rparr>
      | Rejected reason \<Rightarrow>
          s\<lparr>consoleErrors := consoleErrors s @ [reason],
            toasts := toasts s @ [errorToast]\<rparr>)"

text \<open>
  The oldest suspended callback resumes with the given outcome; the transition is over
  once no callback is left. Without a suspended callback nothing happens.
\<close>

definition settle :: "settled \<Rightarrow> Page \<Rightarrow> Page" where
  "settle outcome s =
     (case timers s of
        [] \<Rightarrow> s
      | values # rest \<Rightarrow>
          (onSubmit_resume outcome values (s\<lparr>timers := rest\<rparr>))\<lparr>isPending := (rest \<noteq> [])\<rparr>)"

definition serviceResolved :: "Page \<Rightarrow> Page" where
  "serviceResolved s = settle Fulfilled s"

definition serviceRejected :: "string \<Rightarrow> Page \<Rightarrow> Page" where
  "serviceRejected reason s = settle (Rejected reason) s"

text \<open>
  \<^verbatim>\<open>form.handleSubmit(onSubmit)\<close>: the values are validated by the schema; on failure the
  field errors are stored and \<^verbatim>\<open>onSubmit\<close> is not called, on success it is called with the
  validated values.
\<close>

definition handleSubmit :: "Page \<Rightarrow> Page" where
  "handleSubmit s =
     (case formSchema_parse (formValues s) of
        Inl errs \<Rightarrow> s\<lparr>formErrors := errs\<rparr>
      | Inr values \<Rightarrow> onSubmit values (s\<lparr>formErrors := []\<rparr>))"

text \<open>The submit button is \<^verbatim>\<open>disabled={isPending}\<close>: a disabled button submits nothing.\<close>

definition submitButton :: "Page \<Rightarrow> Page" where
  "submitButton s = (if isPending s then s else handleSubmit s)"

section \<open>Events of the page\<close>

datatype event =
    EditArtifactName string
  | EditContributionText string
  | FileChange "File list"
  | SubmitClick
  | TimerElapsed

fun step :: "event \<Rightarrow> Page \<Rightarrow> Page" where
  "step (EditArtifactName x) s = s\<lparr>formValues := (formValues s)\<lparr>artifactName := x\<rparr>\<rparr>"
| "step (EditContributionText x) s = s\<lparr>formValues := (formValues s)\<lparr>contributionText := x\<rparr>\<rparr>"
| "step (FileChange fs) s = handleFileChange (Some fs) (s\<lparr>fileInputFiles := Some fs\<rparr>)"
| "step SubmitClick s = submitButton s"
| "step TimerElapsed s = settle simulatedDelay s"

definition run :: "event list \<Rightarrow> Page \<Rightarrow> Page" where
  "run es s = foldl (\<lambda>s e. step e s) s es"

section \<open>The summary card\<close>

datatype view = PendingIndicator | ResultText string | AwaitingInput

text \<open>
  \<^verbatim>\<open>isPending ? ... : summary ? ... : ...\<close>; a summary is truthy when it is a non-empty
  string.
\<close>

definition summaryView :: "Page \<Rightarrow> view" where
  "summaryView s =
     (if isPending s then PendingIndicator
      else (case summary s of
              None \<Rightarrow> AwaitingInput
            | Some t \<Rightarrow> if t = [] then AwaitingInput else ResultText t))"

text \<open>\<^verbatim>\<open>s.includes(sub)\<close>: \<open>sub\<close> occurs in \<open>s\<close> as a contiguous run of characters.\<close>

fun includes_str :: "string \<Rightarrow> string \<Rightarrow> bool" where
  "includes_str [] sub = (sub = [])"
| "includes_str (c # cs) sub = (prefix sub (c # cs) \<or> includes_str cs sub)"

text \<open>
  What holds in every state the page can reach: the pending flag is on exactly while a
  callback is suspended, at most one callback is suspended, and nothing has been reported
  as an error.
\<close>

definition page_inv :: "Page \<Rightarrow> bool" where
  "page_inv s =
     (isPending s = (timers s \<noteq> []) \<and> length (timers s) \<le> 1
        \<and> errorToast \<notin> set (toasts s) \<and> consoleErrors s = [])"

section \<open>Theorems\<close>

lemma check_artifactFile_nil: "check_artifactFile a = []"
  by (cases a) simp_all

lemma formSchema_parse_ok:
  "2 \<le> length (artifactName v) \<Longrightarrow> 20 \<le> length (contributionText v)
     \<Longrightarrow> formSchema_parse v = Inr v"
  by (simp add: formSchema_parse_def formSchema_issues_def check_artifactName_def
      check_contributionText_def check_artifactFile_nil)

text \<open>
  C1. Whenever the artifact name has at least 2 characters and the description at least
  20, the schema accepts the values and returns them unchanged, whatever the attachment
  field holds: \<^verbatim>\<open>undefined\<close>, \<^verbatim>\<open>null\<close>, or a file of any name, size and media type.
\<close>

theorem validate_succeeds_any_attachment:
  assumes "2 \<le> length n" and "20 \<le> length t"
  shows "formSchema_parse \<lparr>artifactName = n, artifactFile = a, contributionText = t\<rparr>
           = Inr \<lparr>artifactName = n, artifactFile = a, contributionText = t\<rparr>"
  using assms by (simp add: formSchema_parse_ok)

theorem validate_succeeds_any_attachment_witness:
  "2 \<le> length ''Phurba Dagger''
     \<and> 20 \<le> length ''A ceremonial dagger used in ritual practice.''
     \<and> formSchema_parse
         \<lparr>artifactName = ''Phurba Dagger'',
          artifactFile = FileObj \<lparr>name = ''dagger.exe'', size_bytes = 99999999,
                                  mime_type = ''application/octet-stream''\<rparr>,
          contributionText = ''A ceremonial dagger used in ritual practice.''\<rparr>
       = Inr \<lparr>artifactName = ''Phurba Dagger'',
          artifactFile = FileObj \<lparr>name = ''dagger.exe'', size_bytes = 99999999,
                                  mime_type = ''application/octet-stream''\<rparr>,
          contributionText = ''A ceremonial dagger used in ritual practice.''\<rparr>"
  using validate_succeeds_any_attachment
    [of "''Phurba Dagger''" "''A ceremonial dagger used in ritual practice.''"
        "FileObj \<lparr>name = ''dagger.exe'', size_bytes = 99999999,
                   mime_type = ''application/octet-stream''\<rparr>"]
  by simp

text \<open>
  C2. The fields are checked independently: on the name \<^verbatim>\<open>"A"\<close> and the description
  \<^verbatim>\<open>"short"\<close> the schema fails with exactly two field errors, the first for the artifact
  name and the second for the description, each with its field and its message; the
  attachment adds none.
\<close>

theorem validate_reports_both_fields:
  "formSchema_parse \<lparr>artifactName = ''A'', artifactFile = a, contributionText = ''short''\<rparr>
     = Inl [\<lparr>path = ArtifactNameField,
             message = ''Artifact name must be at least 2 characters.''\<rparr>,
            \<lparr>path = ContributionTextField,
             message = ''Description must be at least 20 characters long.''\<rparr>]"
  by (simp add: formSchema_parse_def formSchema_issues_def check_artifactName_def
      check_contributionText_def check_artifactFile_nil)

text \<open>
  C3. The artifact name is not trimmed before its length is checked: a name made of
  whitespace only, of length at least 2, is accepted (with a description of length at
  least 20), and the accepted values carry the name as it was typed.
\<close>

theorem validate_accepts_whitespace_name:
  assumes "list_all is_whitespace (artifactName v)"
    and "2 \<le> length (artifactName v)"
    and "20 \<le> length (contributionText v)"
  shows "formSchema_parse v = Inr v"
  using assms by (simp add: formSchema_parse_ok)

theorem validate_accepts_whitespace_name_witness:
  "list_all is_whitespace ''   ''
     \<and> 2 \<le> length ''   ''
     \<and> 20 \<le> length ''A ceremonial dagger used in ritual practice.''
     \<and> formSchema_parse
         \<lparr>artifactName = ''   '', artifactFile = Null,
          contributionText = ''A ceremonial dagger used in ritual practice.''\<rparr>
       = Inr \<lparr>artifactName = ''   '', artifactFile = Null,
          contributionText = ''A ceremonial dagger used in ritual practice.''\<rparr>"
  using validate_accepts_whitespace_name
    [of "\<lparr>artifactName = ''   '', artifactFile = Null,
          contributionText = ''A ceremonial dagger used in ritual practice.''\<rparr>"]
  by (simp add: is_whitespace_def)

subsection \<open>The page as a state machine\<close>

lemma includes_str_sublist: "includes_str s sub = sublist sub s"
  by (induction s) (auto simp: sublist_Cons_right)

lemma toast_distinct: "successToast \<noteq> errorToast"
  by (simp add: successToast_def errorToast_def)

lemma page_inv_initial: "page_inv initialPage"
  by (simp add: page_inv_def initialPage_def)

lemma page_inv_step: "page_inv s \<Longrightarrow> page_inv (step e s)"
proof (cases e)
  case SubmitClick
  assume "page_inv s"
  then show ?thesis using SubmitClick
    by (auto simp: page_inv_def submitButton_def handleSubmit_def onSubmit_def
        split: sum.splits)
next
  case TimerElapsed
  assume "page_inv s"
  then show ?thesis using TimerElapsed toast_distinct
    by (cases "timers s")
       (auto simp: page_inv_def settle_def simulatedDelay_def onSubmit_resume_def)
qed (auto simp: page_inv_def handleFileChange_def Let_def)

lemma run_snoc: "run (es @ [e]) s = step e (run es s)"
  by (simp add: run_def)

lemma page_inv_run: "page_inv (run es initialPage)"
proof (induction es rule: rev_induct)
  case Nil
  show ?case by (simp add: run_def page_inv_initial)
next
  case (snoc e es)
  then show ?case by (simp add: run_snoc page_inv_step)
qed

lemma submitButton_keeps:
  "formValues (submitButton s) = formValues s
     \<and> selectedFileName (submitButton s) = selectedFileName s
     \<and> fileInputFiles (submitButton s) = fileInputFiles s"
  by (simp add: submitButton_def handleSubmit_def onSubmit_def split: sum.splits)

lemma serviceRejected_keeps:
  "formValues (serviceRejected r s) = formValues s
     \<and> selectedFileName (serviceRejected r s) = selectedFileName s
     \<and> fileInputFiles (serviceRejected r s) = fileInputFiles s"
  by (simp add: serviceRejected_def settle_def onSubmit_resume_def split: list.splits)

text \<open>
  C4. Of two file selections in sequence only the second is retained: the state after
  both is the state the second alone would give, the form holds the second selection's
  file and the displayed name is that file's name. When the second selection offers
  several files, the first of them is the one taken.
\<close>

theorem second_selection_replaces_first:
  "handleFileChange (Some (f2 # others)) (handleFileChange files1 s)
     = handleFileChange (Some (f2 # others)) s
   \<and> artifactFile (formValues (handleFileChange (Some (f2 # others)) (handleFileChange files1 s)))
       = FileObj f2
   \<and> selectedFileName (handleFileChange (Some (f2 # others)) (handleFileChange files1 s))
       = Some (name f2)"
  by (simp add: handleFileChange_def Let_def)

text \<open>
  C5. While the page is pending, a submit event changes nothing: no validation, no
  second suspended callback, no change of any part of the state. In every state the page
  reaches from its initial state, at most one submission is in flight.
\<close>

theorem submit_ignored_while_pending:
  "(isPending s \<longrightarrow> step SubmitClick s = s)
     \<and> length (timers (run es initialPage)) \<le> 1"
  using page_inv_run [of es] by (simp add: submitButton_def page_inv_def)

theorem submit_ignored_while_pending_witness:
  "isPending (run [EditArtifactName ''Phurba Dagger'',
                   EditContributionText ''A ceremonial dagger used in ritual practice.'',
                   SubmitClick] initialPage)
   \<and> step SubmitClick
         (run [EditArtifactName ''Phurba Dagger'',
               EditContributionText ''A ceremonial dagger used in ritual practice.'',
               SubmitClick] initialPage)
       = run [EditArtifactName ''Phurba Dagger'',
              EditContributionText ''A ceremonial dagger used in ritual practice.'',
              SubmitClick] initialPage
   \<and> length (timers (run [EditArtifactName ''Phurba Dagger'',
              EditContributionText ''A ceremonial dagger used in ritual practice.'',
              SubmitClick, SubmitClick] initialPage)) \<le> 1"
proof -
  have p: "isPending (run [EditArtifactName ''Phurba Dagger'',
                   EditContributionText ''A ceremonial dagger used in ritual practice.'',
                   SubmitClick] initialPage)"
    by (simp add: run_def initialPage_def defaultValues_def submitButton_def
        handleSubmit_def formSchema_parse_def formSchema_issues_def check_artifactName_def
        check_contributionText_def onSubmit_def)
  show ?thesis
    using p submit_ignored_while_pending
      [of "run [EditArtifactName ''Phurba Dagger'',
                EditContributionText ''A ceremonial dagger used in ritual practice.'',
                SubmitClick] initialPage"
          "[EditArtifactName ''Phurba Dagger'',
            EditContributionText ''A ceremonial dagger used in ritual practice.'',
            SubmitClick, SubmitClick]"]
    by blast
qed

text \<open>
  C6. When a submission in flight resolves, the form holds its default values again
  (empty artifact name, \<^verbatim>\<open>null\<close> attachment, empty description), no file name is
  displayed, the file input holds no file where the reference points to it, and the
  summary is the text built from the submitted values.
\<close>

theorem success_resets_form_and_attachment:
  assumes "timers s = values # rest"
  shows "formValues (serviceResolved s) = defaultValues
     \<and> artifactName (formValues (serviceResolved s)) = []
     \<and> artifactFile (formValues (serviceResolved s)) = Null
     \<and> contributionText (formValues (serviceResolved s)) = []
     \<and> selectedFileName (serviceResolved s) = None
     \<and> (fileInputFiles (serviceResolved s) = None \<or> fileInputFiles (serviceResolved s) = Some [])
     \<and> summary (serviceResolved s) = Some (summaryText values)"
  using assms
  by (simp add: serviceResolved_def settle_def onSubmit_resume_def defaultValues_def
      split: option.splits)

theorem success_resets_form_and_attachment_witness:
  "timers (step SubmitClick (step (FileChange [\<lparr>name = ''dagger.jpg'', size_bytes = 1024,
                                                mime_type = ''image/jpeg''\<rparr>])
             (step (EditContributionText ''A ceremonial dagger used in ritual practice.'')
                (step (EditArtifactName ''Phurba Dagger'') initialPage))))
     = [\<lparr>artifactName = ''Phurba Dagger'',
         artifactFile = FileObj \<lparr>name = ''dagger.jpg'', size_bytes = 1024,
                                 mime_type = ''image/jpeg''\<rparr>,
         contributionText = ''A ceremonial dagger used in ritual practice.''\<rparr>]
   \<and> formValues (serviceResolved (step SubmitClick (step (FileChange [\<lparr>name = ''dagger.jpg'', size_bytes = 1024,
                                                mime_type = ''image/jpeg''\<rparr>])
             (step (EditContributionText ''A ceremonial dagger used in ritual practice.'')
                (step (EditArtifactName ''Phurba Dagger'') initialPage)))))
       = defaultValues
   \<and> selectedFileName (serviceResolved (step SubmitClick (step (FileChange [\<lparr>name = ''dagger.jpg'', size_bytes = 1024,
                                                mime_type = ''image/jpeg''\<rparr>])
             (step (EditContributionText ''A ceremonial dagger used in ritual practice.'')
                (step (EditArtifactName ''Phurba Dagger'') initialPage)))))
       = None
   \<and> fileInputFiles (serviceResolved (step SubmitClick (step (FileChange [\<lparr>name = ''dagger.jpg'', size_bytes = 1024,
                                                mime_type = ''image/jpeg''\<rparr>])
             (step (EditContributionText ''A ceremonial dagger used in ritual practice.'')
                (step (EditArtifactName ''Phurba Dagger'') initialPage)))))
       = Some []"
proof -
  let ?s = "step SubmitClick (step (FileChange [\<lparr>name = ''dagger.jpg'', size_bytes = 1024,
                                                mime_type = ''image/jpeg''\<rparr>])
             (step (EditContributionText ''A ceremonial dagger used in ritual practice.'')
                (step (EditArtifactName ''Phurba Dagger'') initialPage)))"
  have t: "timers ?s = [\<lparr>artifactName = ''Phurba Dagger'',
         artifactFile = FileObj \<lparr>name = ''dagger.jpg'', size_bytes = 1024,
                                 mime_type = ''image/jpeg''\<rparr>,
         contributionText = ''A ceremonial dagger used in ritual practice.''\<rparr>]"
    by (simp add: initialPage_def defaultValues_def submitButton_def handleFileChange_def
        handleSubmit_def formSchema_parse_def formSchema_issues_def check_artifactName_def
        check_contributionText_def onSubmit_def)
  have f: "fileInputFiles (serviceResolved ?s) = Some []"
    by (simp add: initialPage_def defaultValues_def submitButton_def handleFileChange_def
        handleSubmit_def formSchema_parse_def formSchema_issues_def check_artifactName_def
        check_contributionText_def onSubmit_def serviceResolved_def settle_def
        onSubmit_resume_def)
  show ?thesis
    using t f success_resets_form_and_attachment [OF t] by simp
qed

text \<open>
  C7. A rejected submission discards nothing: after a submit event followed by a
  rejection, the form's values, the displayed file name and the file input's files are
  those from before the submit event; the rejection itself changes none of them in any
  state.
\<close>

theorem failure_keeps_form_and_attachment:
  "formValues (serviceRejected r (step SubmitClick s)) = formValues s
     \<and> selectedFileName (serviceRejected r (step SubmitClick s)) = selectedFileName s
     \<and> fileInputFiles (serviceRejected r (step SubmitClick s)) = fileInputFiles s
     \<and> formValues (serviceRejected r s) = formValues s
     \<and> selectedFileName (serviceRejected r s) = selectedFileName s
     \<and> fileInputFiles (serviceRejected r s) = fileInputFiles s"
  by (simp add: serviceRejected_keeps submitButton_keeps)

text \<open>
  C8. The summary is built from a fixed template. Submitting the artifact name
  \<^verbatim>\<open>Phurba Dagger\<close> with the description below and no attachment resolves with a
  summary that contains \<^verbatim>\<open>Phurba Dagger\<close> and does not contain \<^verbatim>\<open>with file\<close>; with
  the attachment \<^verbatim>\<open>dagger.jpg\<close>, of any size and media type, the summary contains
  \<^verbatim>\<open>dagger.jpg\<close>.
\<close>

theorem summary_template_scenario:
  "summary (run [EditArtifactName ''Phurba Dagger'',
                 EditContributionText
                   ''A ceremonial dagger used in ritual practice for generations.'',
                 SubmitClick, TimerElapsed] initialPage)
     = Some (''Thank you for your submission about '' @ [CHR 0x22] @ ''Phurba Dagger''
              @ [CHR 0x22]
              @ ''. The data has been received and will be authenticated and added to the archive.'')
   \<and> includes_str
        (''Thank you for your submission about '' @ [CHR 0x22] @ ''Phurba Dagger''
              @ [CHR 0x22]
              @ ''. The data has been received and will be authenticated and added to the archive.'')
        ''Phurba Dagger''
   \<and> \<not> includes_str
        (''Thank you for your submission about '' @ [CHR 0x22] @ ''Phurba Dagger''
              @ [CHR 0x22]
              @ ''. The data has been received and will be authenticated and added to the archive.'')
        ''with file''
   \<and> summary (run [EditArtifactName ''Phurba Dagger'',
                 FileChange [\<lparr>name = ''dagger.jpg'', size_bytes = n, mime_type = m\<rparr>],
                 EditContributionText
                   ''A ceremonial dagger used in ritual practice for generations.'',
                 SubmitClick, TimerElapsed] initialPage)
     = Some (''Thank you for your submission about '' @ [CHR 0x22] @ ''Phurba Dagger''
              @ [CHR 0x22] @ '' (with file: dagger.jpg)''
              @ ''. The data has been received and will be authenticated and added to the archive.'')
   \<and> includes_str
        (''Thank you for your submission about '' @ [CHR 0x22] @ ''Phurba Dagger''
              @ [CHR 0x22] @ '' (with file: dagger.jpg)''
              @ ''. The data has been received and will be authenticated and added to the archive.'')
        ''dagger.jpg''"
  by (simp add: run_def initialPage_def defaultValues_def submitButton_def
      handleFileChange_def handleSubmit_def formSchema_parse_def formSchema_issues_def
      check_artifactName_def check_contributionText_def onSubmit_def settle_def
      simulatedDelay_def onSubmit_resume_def summaryText_def fileInfo_def)

text \<open>
  C9. With the simulated delay as the awaited promise, a submission that passes
  validation always resolves: from any reachable state that is not pending and whose
  values are valid, a submit event followed by the timer gives the summary of those
  values and the success notification, and neither an error notification nor a console
  error has ever been emitted.
\<close>

theorem simulated_service_never_rejects:
  assumes "\<not> isPending (run es initialPage)"
    and "formSchema_parse (formValues (run es initialPage)) = Inr values"
  shows "summary (run (es @ [SubmitClick, TimerElapsed]) initialPage) = Some (summaryText values)
     \<and> \<not> isPending (run (es @ [SubmitClick, TimerElapsed]) initialPage)
     \<and> toasts (run (es @ [SubmitClick, TimerElapsed]) initialPage)
         = toasts (run es initialPage) @ [successToast]
     \<and> errorToast \<notin> set (toasts (run (es @ [SubmitClick, TimerElapsed]) initialPage))
     \<and> consoleErrors (run (es @ [SubmitClick, TimerElapsed]) initialPage) = []"
proof -
  let ?s = "run es initialPage"
  have inv: "page_inv ?s" by (rule page_inv_run)
  with assms(1) have t: "timers ?s = []" by (simp add: page_inv_def)
  have r: "run (es @ [SubmitClick, TimerElapsed]) initialPage
             = step TimerElapsed (step SubmitClick ?s)"
    by (simp add: run_def)
  have inv': "page_inv (run (es @ [SubmitClick, TimerElapsed]) initialPage)"
    by (rule page_inv_run)
  show ?thesis
    using assms t inv inv' unfolding r
    by (simp add: page_inv_def submitButton_def handleSubmit_def onSubmit_def settle_def
        simulatedDelay_def onSubmit_resume_def)
qed

theorem simulated_service_never_rejects_witness:
  "\<not> isPending (run [EditArtifactName ''Phurba Dagger'',
                   EditContributionText ''A ceremonial dagger used in ritual practice.'']
                 initialPage)
   \<and> formSchema_parse (formValues (run [EditArtifactName ''Phurba Dagger'',
                   EditContributionText ''A ceremonial dagger used in ritual practice.'']
                 initialPage))
       = Inr \<lparr>artifactName = ''Phurba Dagger'', artifactFile = Null,
              contributionText = ''A ceremonial dagger used in ritual practice.''\<rparr>
   \<and> toasts (run ([EditArtifactName ''Phurba Dagger'',
                   EditContributionText ''A ceremonial dagger used in ritual practice.'']
                  @ [SubmitClick, TimerElapsed]) initialPage)
       = [successToast]
   \<and> errorToast \<notin> set (toasts (run ([EditArtifactName ''Phurba Dagger'',
                   EditContributionText ''A ceremonial dagger used in ritual practice.'']
                  @ [SubmitClick, TimerElapsed]) initialPage))"
proof -
  let ?es = "[EditArtifactName ''Phurba Dagger'',
              EditContributionText ''A ceremonial dagger used in ritual practice.'']"
  have a: "\<not> isPending (run ?es initialPage)"
    by (simp add: run_def initialPage_def)
  have b: "formSchema_parse (formValues (run ?es initialPage))
       = Inr \<lparr>artifactName = ''Phurba Dagger'', artifactFile = Null,
              contributionText = ''A ceremonial dagger used in ritual practice.''\<rparr>"
    by (simp add: run_def initialPage_def defaultValues_def formSchema_parse_def
        formSchema_issues_def check_artifactName_def check_contributionText_def)
  have c: "toasts (run ?es initialPage) = []"
    by (simp add: run_def initialPage_def)
  show ?thesis
    using a b c simulated_service_never_rejects [OF a b]
    by (simp add: toast_distinct [symmetric])
qed

text \<open>
  C10. Starting a submission clears the summary shown before, and a rejection leaves
  it cleared: after a submit event on valid values and a rejection with any reason, the
  summary is \<^verbatim>\<open>null\<close>, the pending flag is off, and the summary card shows the
  awaiting-input branch.
\<close>

theorem rejection_shows_awaiting_input:
  assumes "\<not> isPending s" and "timers s = []"
    and "formSchema_parse (formValues s) = Inr values"
  shows "summary (step SubmitClick s) = None
     \<and> summaryView (step SubmitClick s) = PendingIndicator
     \<and> summary (serviceRejected reason (step SubmitClick s)) = None
     \<and> \<not> isPending (serviceRejected reason (step SubmitClick s))
     \<and> summaryView (serviceRejected reason (step SubmitClick s)) = AwaitingInput"
  using assms
  by (simp add: submitButton_def handleSubmit_def onSubmit_def serviceRejected_def
      settle_def onSubmit_resume_def summaryView_def)

theorem rejection_shows_awaiting_input_witness:
  "summaryView (run [EditArtifactName ''Phurba Dagger'',
                   EditContributionText ''A ceremonial dagger used in ritual practice.'',
                   SubmitClick, TimerElapsed,
                   EditArtifactName ''Thangka'',
                   EditContributionText ''A painted scroll kept in the prayer hall.'']
                initialPage)
     = ResultText (''Thank you for your submission about '' @ [CHR 0x22] @ ''Phurba Dagger''
              @ [CHR 0x22]
              @ ''. The data has been received and will be authenticated and added to the archive.'')
   \<and> summaryView (serviceRejected ''network down''
        (step SubmitClick (run [EditArtifactName ''Phurba Dagger'',
                   EditContributionText ''A ceremonial dagger used in ritual practice.'',
                   SubmitClick, TimerElapsed,
                   EditArtifactName ''Thangka'',
                   EditContributionText ''A painted scroll kept in the prayer hall.'']
                initialPage)))
     = AwaitingInput"
proof -
  let ?s = "run [EditArtifactName ''Phurba Dagger'',
                   EditContributionText ''A ceremonial dagger used in ritual practice.'',
                   SubmitClick, TimerElapsed,
                   EditArtifactName ''Thangka'',
                   EditContributionText ''A painted scroll kept in the prayer hall.'']
                initialPage"
  have ev: "?s = \<lparr>isPending = False,
      summary = Some (''Thank you for your submission about '' @ [CHR 0x22] @ ''Phurba Dagger''
              @ [CHR 0x22]
              @ ''. The data has been received and will be authenticated and added to the archive.''),
      selectedFileName = None,
      formValues = \<lparr>artifactName = ''Thangka'', artifactFile = Null,
                     contributionText = ''A painted scroll kept in the prayer hall.''\<rparr>,
      formErrors = [], fileInputFiles = Some [],
      toasts = [successToast], consoleErrors = [], timers = []\<rparr>"
    by (simp add: run_def initialPage_def defaultValues_def submitButton_def
      handleSubmit_def formSchema_parse_def formSchema_issues_def
      check_artifactName_def check_contributionText_def onSubmit_def settle_def
      simulatedDelay_def onSubmit_resume_def summaryText_def fileInfo_def)
  have a: "\<not> isPending ?s" by (simp add: ev)
  have b: "timers ?s = []" by (simp add: ev)
  have c: "formSchema_parse (formValues ?s)
             = Inr \<lparr>artifactName = ''Thangka'', artifactFile = Null,
                     contributionText = ''A painted scroll kept in the prayer hall.''\<rparr>"
    by (simp add: ev formSchema_parse_def formSchema_issues_def
      check_artifactName_def check_contributionText_def)
  have d: "summaryView ?s = ResultText (''Thank you for your submission about '' @ [CHR 0x22] @ ''Phurba Dagger''
              @ [CHR 0x22]
              @ ''. The data has been received and will be authenticated and added to the archive.'')"
    by (simp add: ev summaryView_def)
  show ?thesis
    using d rejection_shows_awaiting_input [OF a b c, of "''network down''"] by simp
qed

end
